theory Spec2Isabelle
  imports Complex_Main
begin

section \<open>The job queue of 4CAT: \<open>common/lib/job.py\<close>\<close>

text \<open>
  A \<open>Job\<close> object caches one row of the \<open>jobs\<close> table and turns its lifecycle
  operations (\<open>claim\<close>, \<open>finish\<close>, \<open>release\<close>) into updates of that table. The model
  passes the table explicitly: every method takes the store and returns the exception it
  raised (if any), the object and the store as they are when the call ends.
\<close>

subsection \<open>Values\<close>

text \<open>
  The values a column of a row can hold: \<open>NULL\<close>, a boolean, an integer, a text. The
  dictionary \<open>self.data\<close> maps column names to such values.
\<close>

datatype pyval = PNone | PBool bool | PInt int | PStr string

text \<open>
  The exceptions the methods of \<open>Job\<close> can end with. \<open>JSONDecodeError\<close> is a
  subclass of \<open>ValueError\<close>; \<open>ValueError\<close> here is one that is not a
  \<open>JSONDecodeError\<close>.
\<close>

datatype exc =
    KeyError
  | TypeError
  | JobClaimedException
  | JSONDecodeError
  | RecursionError
  | ValueError

text \<open>Python's truth value of a column value (\<open>bool(v)\<close>).\<close>

fun truthy :: "pyval \<Rightarrow> bool" where
  "truthy PNone = False"
| "truthy (PBool b) = b"
| "truthy (PInt i) = (i \<noteq> 0)"
| "truthy (PStr s) = (s \<noteq> [])"

text \<open>
  The integer a value stands for in arithmetic and ordering: \<open>bool\<close> is a subclass of
  \<open>int\<close>, \<open>None\<close> and \<open>str\<close> raise \<open>TypeError\<close> there (\<open>None\<close> in the model).
\<close>

fun as_int :: "pyval \<Rightarrow> int option" where
  "as_int (PInt i) = Some i"
| "as_int (PBool b) = Some (if b then 1 else 0)"
| "as_int PNone = None"
| "as_int (PStr s) = None"

text \<open>\<open>v == 0\<close>: never raises; \<open>None\<close> and strings are not equal to \<open>0\<close>.\<close>

definition eq_zero :: "pyval \<Rightarrow> bool" where
  "eq_zero v = (as_int v = Some 0)"

subsection \<open>The store\<close>

text \<open>
  Modelled from the spec: the database handler \<open>self.db\<close> (\<open>common/lib/database.py\<close>)
  is not among the sources. The spec (section 6) gives its contract:
  \<open>conditional_update(table, new_values, match_predicate) -> affected_row_count\<close> and
  \<open>delete(table, match_predicate) -> affected_row_count\<close>, each atomic. The only table
  \<open>Job\<close> touches is \<open>jobs\<close>; it is a list of rows. A predicate is a list of
  \<open>column = value\<close> conditions, all of which must hold; as in SQL, \<open>NULL\<close> is equal to
  nothing.
\<close>

type_synonym row = "string \<rightharpoonup> pyval"
type_synonym store = "row list"

definition matches :: "(string \<times> pyval) list \<Rightarrow> row \<Rightarrow> bool" where
  "matches wh r = list_all (\<lambda>(k, v). v \<noteq> PNone \<and> r k = Some v) wh"

definition assign :: "(string \<times> pyval) list \<Rightarrow> row \<Rightarrow> row" where
  "assign upd r = foldl (\<lambda>r' (k, v). r'(k \<mapsto> v)) r upd"

definition db_update :: "(string \<times> pyval) list \<Rightarrow> (string \<times> pyval) list \<Rightarrow> store \<Rightarrow> nat \<times> store" where
  "db_update upd wh st =
     (length (filter (matches wh) st),
      map (\<lambda>r. if matches wh r then assign upd r else r) st)"

definition db_delete :: "(string \<times> pyval) list \<Rightarrow> store \<Rightarrow> nat \<times> store" where
  "db_delete wh st =
     (length (filter (matches wh) st), filter (\<lambda>r. \<not> matches wh r) st)"

subsection \<open>The Job object\<close>

record job =
  data :: "string \<rightharpoonup> pyval"
  is_finished :: pyval
  is_claimed :: pyval

text \<open>
  The outcome of a method that mutates: the exception raised (\<open>None\<close> when the method
  returns), the object and the store at that moment.
\<close>

type_synonym outcome = "exc option \<times> job \<times> store"

text \<open>
  The clock: \<open>now\<close> is the value of \<open>time.time()\<close>, seconds since the epoch as a
  float, taken as the real number it denotes. \<open>int(time.time())\<close> drops the fraction,
  towards zero.
\<close>

definition int_of_time :: "real \<Rightarrow> int" where
  "int_of_time now = (if 0 \<le> now then \<lfloor>now\<rfloor> else \<lceil>now\<rceil>)"

text \<open>
  \<open>claim\<close>, lines 114 to 120: the claim time. \<open>interval == 0\<close> compares without
  raising; in the other branch \<open>int(time.time()) / interval\<close> raises \<open>TypeError\<close> unless
  the interval is a number, and that number is not zero there. The quotient is a float in
  Python; its floor is the integer quotient rounded down (exactly so while the time is
  below \<open>2^53\<close> seconds), which is \<open>div\<close> on \<open>int\<close>.
\<close>

definition claim_time :: "real \<Rightarrow> pyval \<Rightarrow> exc + int" where
  "claim_time now iv =
     (if eq_zero iv then Inr (int_of_time now)
      else (case as_int iv of
              None \<Rightarrow> Inl TypeError
            | Some i \<Rightarrow> Inr ((int_of_time now div i) * i)))"

text \<open>
  \<open>claim\<close>, lines 106 to 131. \<open>instance_id\<close> is the value of \<open>get_instance_id()\<close>.
\<close>

definition claim :: "string \<Rightarrow> real \<Rightarrow> job \<Rightarrow> store \<Rightarrow> outcome" where
  "claim instance_id now self st =
     (case data self ''interval'' of
        None \<Rightarrow> (Some KeyError, self, st)
      | Some iv \<Rightarrow>
          (case claim_time now iv of
             Inl e \<Rightarrow> (Some e, self, st)
           | Inr ct \<Rightarrow>
               (case data self ''id'' of
                  None \<Rightarrow> (Some KeyError, self, st)
                | Some jid \<Rightarrow>
                    (case db_update
                            [(''timestamp_claimed'', PInt ct),
                             (''timestamp_lastclaimed'', PInt ct),
                             (''instance'', PStr instance_id)]
                            [(''id'', jid), (''timestamp_claimed'', PInt 0)] st of
                       (updated, st') \<Rightarrow>
                         if updated = 0 then (Some JobClaimedException, self, st')
                         else (None,
                               self\<lparr>data := (data self)
                                       (''timestamp_claimed'' \<mapsto> PInt ct,
                                        ''timestamp_lastclaimed'' \<mapsto> PInt ct),
                                     is_claimed := PBool True\<rparr>,
                               st')))))"

text \<open>\<open>finish\<close>, lines 133 to 148.\<close>

definition finish :: "job \<Rightarrow> bool \<Rightarrow> store \<Rightarrow> outcome" where
  "finish self delete st =
     (case data self ''interval'' of
        None \<Rightarrow> (Some KeyError, self, st)
      | Some iv \<Rightarrow>
          (case data self ''id'' of
             None \<Rightarrow> (Some KeyError, self, st)
           | Some jid \<Rightarrow>
               (if eq_zero iv \<or> delete
                then (None, self\<lparr>is_finished := PBool True\<rparr>,
                      snd (db_delete [(''id'', jid)] st))
                else (None, self\<lparr>is_finished := PBool True\<rparr>,
                      snd (db_update
                             [(''timestamp_claimed'', PInt 0), (''attempts'', PInt 0)]
                             [(''id'', jid)] st)))))"

text \<open>
  \<open>release\<close>, lines 150 to 165. \<open>claim_after\<close> is an integer or \<open>None\<close>. The
  defaults of the source are \<open>delay = 0\<close> and \<open>claim_after = 0\<close>, that is \<open>Some 0\<close>.
\<close>

definition release_update :: "real \<Rightarrow> int \<Rightarrow> int \<Rightarrow> int option \<Rightarrow> (string \<times> pyval) list" where
  "release_update now attempts delay claim_after =
     [(''timestamp_claimed'', PInt 0), (''attempts'', PInt (attempts + 1))] @
     (if delay > 0 then [(''timestamp_after'', PInt (int_of_time now + delay))]
      else (case claim_after of
              Some c \<Rightarrow> [(''timestamp_after'', PInt c)]
            | None \<Rightarrow> []))"

definition release :: "real \<Rightarrow> job \<Rightarrow> int \<Rightarrow> int option \<Rightarrow> store \<Rightarrow> outcome" where
  "release now self delay claim_after st =
     (case data self ''attempts'' of
        None \<Rightarrow> (Some KeyError, self, st)
      | Some a \<Rightarrow>
          (case as_int a of
             None \<Rightarrow> (Some TypeError, self, st)
           | Some n \<Rightarrow>
               (case data self ''id'' of
                  None \<Rightarrow> (Some KeyError, self, st)
                | Some jid \<Rightarrow>
                    (None, self\<lparr>is_claimed := PBool False\<rparr>,
                     snd (db_update (release_update now n delay claim_after)
                            [(''id'', jid)] st)))))"

text \<open>
  \<open>is_claimable\<close>, lines 167 to 176. The time is not truncated here; the subtraction
  and the comparison are taken exactly. The conjunction stops at its first false operand,
  so the dictionary is read only for an object that is neither claimed nor finished. The
  method has no access to the store: it neither takes nor returns one.
\<close>

definition is_claimable :: "real \<Rightarrow> job \<Rightarrow> exc + bool" where
  "is_claimable now self =
     (if truthy (is_claimed self) then Inr False
      else if truthy (is_finished self) then Inr False
      else (case data self ''timestamp_lastclaimed'' of
              None \<Rightarrow> Inl KeyError
            | Some l \<Rightarrow>
                (case data self ''interval'' of
                   None \<Rightarrow> Inl KeyError
                 | Some iv \<Rightarrow>
                     (case as_int iv of
                        None \<Rightarrow> Inl TypeError
                      | Some i \<Rightarrow>
                          (case as_int l of
                             None \<Rightarrow> Inl TypeError
                           | Some t \<Rightarrow> Inr (real_of_int t < now - real_of_int i))))))"

subsection \<open>The details of a job\<close>

text \<open>
  What \<open>json.loads\<close> returns: \<open>None\<close>, a boolean, an integer, a float, a string, a
  list, or a dictionary (insertion-ordered, keys unique).
\<close>

datatype pyfloat = FFinite real | FInfinite bool | FNaN

datatype json =
    JNull
  | JBool bool
  | JInt int
  | JFloat pyfloat
  | JString string
  | JArray "json list"
  | JObject "(string \<times> json) list"

text \<open>Python's truth value of a decoded document.\<close>

fun json_truthy :: "json \<Rightarrow> bool" where
  "json_truthy JNull = False"
| "json_truthy (JBool b) = b"
| "json_truthy (JInt i) = (i \<noteq> 0)"
| "json_truthy (JFloat (FFinite x)) = (x \<noteq> 0)"
| "json_truthy (JFloat (FInfinite neg)) = True"
| "json_truthy (JFloat FNaN) = True"
| "json_truthy (JString s) = (s \<noteq> [])"
| "json_truthy (JArray xs) = (xs \<noteq> [])"
| "json_truthy (JObject kvs) = (kvs \<noteq> [])"

text \<open>
  \<open>json.loads\<close> belongs to Python's standard library. It raises \<open>TypeError\<close> for an
  argument that is not a string and \<open>JSONDecodeError\<close> for the empty string. What it
  does with any other string is the parameter \<open>decode\<close>: the value it returns, or the
  exception it raises. That is \<open>JSONDecodeError\<close> for a string that is not a JSON
  document, but not only: a document nested too deep ends in \<open>RecursionError\<close>, an
  integer of more digits than the interpreter converts in \<open>ValueError\<close>.
\<close>

definition json_loads :: "(string \<Rightarrow> exc + json) \<Rightarrow> pyval \<Rightarrow> exc + json" where
  "json_loads decode v =
     (case v of
        PStr s \<Rightarrow> (if s = [] then Inl JSONDecodeError else decode s)
      | _ \<Rightarrow> Inl TypeError)"

text \<open>
  \<open>details\<close>, lines 178 to 187. The lookup \<open>self.data["details"]\<close> is inside the
  \<open>try\<close>, and \<open>KeyError\<close> is not among the exceptions it catches; nor is any
  exception of \<open>json.loads\<close> other than \<open>TypeError\<close> and \<open>JSONDecodeError\<close>.
\<close>

definition details :: "(string \<Rightarrow> exc + json) \<Rightarrow> job \<Rightarrow> exc + json" where
  "details decode self =
     (case data self ''details'' of
        None \<Rightarrow> Inl KeyError
      | Some v \<Rightarrow>
          (case json_loads decode v of
             Inr d \<Rightarrow> (if json_truthy d then Inr d else Inr (JObject []))
           | Inl e \<Rightarrow>
               (if e = TypeError \<or> e = JSONDecodeError then Inr (JObject [])
                else Inl e)))"

subsection \<open>Constructing a Job\<close>

text \<open>\<open>str(v)\<close> for a column value.\<close>

fun digits :: "nat \<Rightarrow> string" where
  "digits n =
     (if n < 10 then [''0123456789'' ! n]
      else digits (n div 10) @ [''0123456789'' ! (n mod 10)])"

fun py_str :: "pyval \<Rightarrow> string" where
  "py_str PNone = ''None''"
| "py_str (PBool b) = (if b then ''True'' else ''False'')"
| "py_str (PInt i) = (if i < 0 then ''-'' @ digits (nat (- i)) else digits (nat i))"
| "py_str (PStr s) = s"

text \<open>
  \<open>__init__\<close>, lines 22 to 35. \<open>a and b\<close> is \<open>a\<close> itself when \<open>a\<close> is false, so
  \<open>is_claimed\<close> holds the value of the column when that is \<open>0\<close> or \<open>None\<close>.
\<close>

definition Job_init :: "(string \<rightharpoonup> pyval) \<Rightarrow> exc + job" where
  "Job_init row =
     (case row ''remote_id'' of
        None \<Rightarrow> Inl KeyError
      | Some rid \<Rightarrow>
          (let d = row(''remote_id'' \<mapsto> PStr (py_str rid));
               fin = (case d ''is_finished'' of None \<Rightarrow> PBool False | Some f \<Rightarrow> f)
           in (case d ''timestamp_claimed'' of
                 None \<Rightarrow> Inl KeyError
               | Some tc \<Rightarrow>
                   (if \<not> truthy tc
                    then Inr \<lparr>data = d, is_finished = fin, is_claimed = tc\<rparr>
                    else (case as_int tc of
                            None \<Rightarrow> Inl TypeError
                          | Some t \<Rightarrow>
                              Inr \<lparr>data = d, is_finished = fin,
                                   is_claimed = PBool (t > 0)\<rparr>)))))"

subsection \<open>Several claimants\<close>

text \<open>
  The callers that attempt to claim, in the order in which their updates reach the store:
  each has its own instance id, its own clock reading and its own \<open>Job\<close> object. The
  store runs one conditional update at a time (spec, section 6), and \<open>claim\<close> touches the
  store in that one update only, so an execution of concurrent callers is such a sequence.
  The result lists what each caller's \<open>claim\<close> ended with.
\<close>

fun claim_attempts :: "(string \<times> real \<times> job) list \<Rightarrow> store \<Rightarrow> exc option list \<times> store" where
  "claim_attempts [] st = ([], st)"
| "claim_attempts ((instance_id, now, self) # cs) st =
     (case claim instance_id now self st of
        (e, self', st') \<Rightarrow>
          (case claim_attempts cs st' of
             (es, st'') \<Rightarrow> (e # es, st'')))"

text \<open>
  A claimant of the job \<open>jid\<close>: its object holds that id, and its \<open>claim\<close> computes a
  claim time that is not zero. The job is unclaimed in the store when a row with that id
  has \<open>timestamp_claimed = 0\<close>.
\<close>

definition claimant_of :: "pyval \<Rightarrow> string \<times> real \<times> job \<Rightarrow> bool" where
  "claimant_of jid c =
     (case c of (iid, T, j) \<Rightarrow>
        data j ''id'' = Some jid \<and>
        (case data j ''interval'' of
           None \<Rightarrow> False
         | Some iv \<Rightarrow> (case claim_time T iv of Inl e \<Rightarrow> False | Inr ct \<Rightarrow> ct \<noteq> 0)))"

definition unclaimed_in :: "pyval \<Rightarrow> store \<Rightarrow> bool" where
  "unclaimed_in jid st =
     list_ex (\<lambda>r. r ''id'' = Some jid \<and> r ''timestamp_claimed'' = Some (PInt 0)) st"

subsection \<open>Example rows\<close>

text \<open>A recurring job, every ten minutes, released twice so far.\<close>

definition recurring_row :: row where
  "recurring_row =
     [''id'' \<mapsto> PInt 7, ''jobtype'' \<mapsto> PStr ''scrape'', ''remote_id'' \<mapsto> PStr ''feed'',
      ''details'' \<mapsto> PStr ''[1]'', ''interval'' \<mapsto> PInt 600,
      ''timestamp_claimed'' \<mapsto> PInt 0, ''timestamp_lastclaimed'' \<mapsto> PInt 0,
      ''timestamp_after'' \<mapsto> PInt 500, ''attempts'' \<mapsto> PInt 2,
      ''instance'' \<mapsto> PStr ''*'']"

definition recurring_job :: job where
  "recurring_job = \<lparr>data = recurring_row, is_finished = PBool False, is_claimed = PInt 0\<rparr>"

text \<open>A one-shot job that was never claimed.\<close>

definition one_shot_row :: row where
  "one_shot_row =
     [''id'' \<mapsto> PInt 8, ''jobtype'' \<mapsto> PStr ''export'', ''remote_id'' \<mapsto> PStr ''abc'',
      ''details'' \<mapsto> PNone, ''interval'' \<mapsto> PInt 0,
      ''timestamp_claimed'' \<mapsto> PInt 0, ''timestamp_lastclaimed'' \<mapsto> PInt 0,
      ''timestamp_after'' \<mapsto> PInt 0, ''attempts'' \<mapsto> PInt 0,
      ''instance'' \<mapsto> PStr ''*'']"

definition one_shot_job :: job where
  "one_shot_job = \<lparr>data = one_shot_row, is_finished = PBool False, is_claimed = PInt 0\<rparr>"

text \<open>
  The one-shot job claimed at second 1000, then released at second 1500 with the default
  arguments.
\<close>

definition claimed_once :: outcome where
  "claimed_once = claim ''worker'' 1000 one_shot_job [one_shot_row]"

definition released_once :: outcome where
  "released_once =
     release 1500 (fst (snd claimed_once)) 0 (Some 0) (snd (snd claimed_once))"

text \<open>
  A recurring job whose interval, two thousand million seconds, is longer than the time
  since the epoch at second 1700000000.
\<close>

definition long_row :: row where
  "long_row =
     [''id'' \<mapsto> PInt 9, ''jobtype'' \<mapsto> PStr ''census'', ''remote_id'' \<mapsto> PStr ''all'',
      ''details'' \<mapsto> PNone, ''interval'' \<mapsto> PInt 2000000000,
      ''timestamp_claimed'' \<mapsto> PInt 0, ''timestamp_lastclaimed'' \<mapsto> PInt 0,
      ''timestamp_after'' \<mapsto> PInt 0, ''attempts'' \<mapsto> PInt 0,
      ''instance'' \<mapsto> PStr ''*'']"

definition long_job :: job where
  "long_job = \<lparr>data = long_row, is_finished = PBool False, is_claimed = PInt 0\<rparr>"

text \<open>A row that has no \<open>details\<close> column.\<close>

definition bare_row :: row where
  "bare_row =
     [''id'' \<mapsto> PInt 3, ''remote_id'' \<mapsto> PStr ''x'', ''interval'' \<mapsto> PInt 0,
      ''timestamp_claimed'' \<mapsto> PInt 0, ''timestamp_lastclaimed'' \<mapsto> PInt 0]"

definition bare_job :: job where
  "bare_job = \<lparr>data = bare_row, is_finished = PBool False, is_claimed = PInt 0\<rparr>"

text \<open>
  What \<open>json.loads\<close> gives on the strings of the examples: \<open>[1]\<close> and \<open>0\<close> are
  documents, \<open>nope\<close> is not, and a thousand opening brackets exceed the recursion
  limit of the decoder.
\<close>

definition deep_brackets :: string where
  "deep_brackets = replicate 1000 (CHR ''['')"

definition example_decode :: "string \<Rightarrow> exc + json" where
  "example_decode s =
     (if s = ''[1]'' then Inr (JArray [JInt 1])
      else if s = ''0'' then Inr (JInt 0)
      else if length s = 1000 \<and> list_all (\<lambda>c. c = CHR ''['') s then Inl RecursionError
      else Inl JSONDecodeError)"

text \<open>
  The recurring job released twice from the same object, at seconds 1000 and 1100, with
  no delay and \<open>claim_after = None\<close>.
\<close>

definition released_first :: outcome where
  "released_first = release 1000 recurring_job 0 None [recurring_row]"

definition released_second :: outcome where
  "released_second =
     release 1100 (fst (snd released_first)) 0 None (snd (snd released_first))"

section \<open>Properties\<close>

subsection \<open>The store\<close>

lemma matches_id:
  "jid \<noteq> PNone \<Longrightarrow> matches [(''id'', jid)] r \<longleftrightarrow> r ''id'' = Some jid"
  by (simp add: matches_def)

lemma matches_unclaimed:
  "matches [(''id'', jid), (''timestamp_claimed'', PInt 0)] r \<longleftrightarrow>
     jid \<noteq> PNone \<and> r ''id'' = Some jid \<and> r ''timestamp_claimed'' = Some (PInt 0)"
  by (simp add: matches_def)

lemma update_none_matching:
  "fst (db_update upd wh st) = 0 \<Longrightarrow> snd (db_update upd wh st) = st"
  by (auto simp: db_update_def filter_empty_conv intro: map_idI)

lemma update_some_matching:
  "fst (db_update upd wh st) \<noteq> 0 \<longleftrightarrow> (\<exists>r \<in> set st. matches wh r)"
  by (auto simp: db_update_def filter_empty_conv)

subsection \<open>The examples are what the constructor builds\<close>

lemma recurring_job_init: "Job_init recurring_row = Inr recurring_job"
  by (simp add: Job_init_def recurring_job_def recurring_row_def fun_upd_twist)

lemma one_shot_job_init: "Job_init one_shot_row = Inr one_shot_job"
  by (simp add: Job_init_def one_shot_job_def one_shot_row_def fun_upd_twist)

lemma long_job_init: "Job_init long_row = Inr long_job"
  by (simp add: Job_init_def long_job_def long_row_def fun_upd_twist)

subsection \<open>Claiming\<close>

text \<open>
  What \<open>claim\<close> does once the interval and the id are read: it fails with
  \<open>JobClaimedException\<close>, changing nothing, when the update matched no row, and
  otherwise records the claim time in the object.
\<close>

lemma claim_run:
  assumes "data self ''interval'' = Some iv"
      and "claim_time T iv = Inr ct"
      and "data self ''id'' = Some jid"
  shows "claim iid T self st =
           (if fst (db_update
                     [(''timestamp_claimed'', PInt ct),
                      (''timestamp_lastclaimed'', PInt ct),
                      (''instance'', PStr iid)]
                     [(''id'', jid), (''timestamp_claimed'', PInt 0)] st) = 0
            then (Some JobClaimedException, self, st)
            else (None,
                  self\<lparr>data := (data self)
                          (''timestamp_claimed'' \<mapsto> PInt ct,
                           ''timestamp_lastclaimed'' \<mapsto> PInt ct),
                        is_claimed := PBool True\<rparr>,
                  snd (db_update
                     [(''timestamp_claimed'', PInt ct),
                      (''timestamp_lastclaimed'', PInt ct),
                      (''instance'', PStr iid)]
                     [(''id'', jid), (''timestamp_claimed'', PInt 0)] st)))"
proof (cases "db_update
                     [(''timestamp_claimed'', PInt ct),
                      (''timestamp_lastclaimed'', PInt ct),
                      (''instance'', PStr iid)]
                     [(''id'', jid), (''timestamp_claimed'', PInt 0)] st")
  case (Pair n s)
  with update_none_matching [of "[(''timestamp_claimed'', PInt ct),
                      (''timestamp_lastclaimed'', PInt ct),
                      (''instance'', PStr iid)]" "[(''id'', jid), (''timestamp_claimed'', PInt 0)]" st]
  have "n = 0 \<Longrightarrow> s = st" by simp
  with Pair assms show ?thesis by (simp add: claim_def)
qed

lemma claim_returns:
  assumes "claim iid T self st = (None, self', st')"
  obtains iv ct jid where
    "data self ''interval'' = Some iv" "claim_time T iv = Inr ct" "data self ''id'' = Some jid"
  using assms
  by (auto simp: claim_def split: option.splits sum.splits prod.splits if_splits)

lemma claim_time_int:
  assumes "0 \<le> T" "0 \<le> i"
  shows "claim_time T (PInt i) =
           Inr (if i = 0 then \<lfloor>T\<rfloor> else \<lfloor>T / real_of_int i\<rfloor> * i)"
  using assms by (simp add: claim_time_def eq_zero_def int_of_time_def floor_divide_real_eq_div)

text \<open>
  Claim C2. A successful \<open>claim()\<close> at wall-clock time \<open>T\<close> sets \<open>timestamp_claimed\<close>
  and \<open>timestamp_lastclaimed\<close>, in the object and in every row the update matched (there
  is one at least), to \<open>floor(T / interval) * interval\<close> when the interval is positive
  and to \<open>T\<close> in whole seconds when it is zero. \<open>T\<close> is a time since the epoch, hence
  not negative, and the interval is an integer that is not negative.
\<close>

theorem claim_sets_snapped_time:
  assumes ok: "claim iid T self st = (None, self', st')"
      and iv: "data self ''interval'' = Some (PInt i)"
      and T: "0 \<le> T" and i: "0 \<le> i"
  shows "\<exists>ct jid.
           ct = (if i = 0 then \<lfloor>T\<rfloor> else \<lfloor>T / real_of_int i\<rfloor> * i)
         \<and> data self' ''timestamp_claimed'' = Some (PInt ct)
         \<and> data self' ''timestamp_lastclaimed'' = Some (PInt ct)
         \<and> data self ''id'' = Some jid
         \<and> (\<exists>r \<in> set st. r ''id'' = Some jid \<and> r ''timestamp_claimed'' = Some (PInt 0))
         \<and> st' = map (\<lambda>r. if r ''id'' = Some jid \<and> r ''timestamp_claimed'' = Some (PInt 0)
                          then r(''timestamp_claimed'' \<mapsto> PInt ct,
                                 ''timestamp_lastclaimed'' \<mapsto> PInt ct,
                                 ''instance'' \<mapsto> PStr iid)
                          else r) st"
proof -
  from ok obtain iv ct jid where
    a: "data self ''interval'' = Some iv" "claim_time T iv = Inr ct" "data self ''id'' = Some jid"
    by (rule claim_returns)
  from a(1) iv have "iv = PInt i" by simp
  with a(2) claim_time_int [OF T i]
  have ct: "ct = (if i = 0 then \<lfloor>T\<rfloor> else \<lfloor>T / real_of_int i\<rfloor> * i)" by simp
  let ?upd = "[(''timestamp_claimed'', PInt ct), (''timestamp_lastclaimed'', PInt ct),
               (''instance'', PStr iid)]"
  let ?wh = "[(''id'', jid), (''timestamp_claimed'', PInt 0)]"
  from ok claim_run [OF a, of iid st]
  have nz: "fst (db_update ?upd ?wh st) \<noteq> 0"
    and self': "self' = self\<lparr>data := (data self)
                          (''timestamp_claimed'' \<mapsto> PInt ct,
                           ''timestamp_lastclaimed'' \<mapsto> PInt ct),
                        is_claimed := PBool True\<rparr>"
    and st': "st' = snd (db_update ?upd ?wh st)"
    by (auto split: if_splits)
  from nz obtain r where r: "r \<in> set st" "matches ?wh r"
    unfolding update_some_matching by blast
  then have jid: "jid \<noteq> PNone" by (simp add: matches_unclaimed)
  have "st' = map (\<lambda>r. if r ''id'' = Some jid \<and> r ''timestamp_claimed'' = Some (PInt 0)
                          then r(''timestamp_claimed'' \<mapsto> PInt ct,
                                 ''timestamp_lastclaimed'' \<mapsto> PInt ct,
                                 ''instance'' \<mapsto> PStr iid)
                          else r) st"
    unfolding st' using jid by (simp add: db_update_def matches_unclaimed assign_def)
  moreover have "\<exists>r \<in> set st. r ''id'' = Some jid \<and> r ''timestamp_claimed'' = Some (PInt 0)"
    using r by (auto simp: matches_unclaimed)
  ultimately show ?thesis using ct self' a(3) by simp
qed

theorem claim_sets_snapped_time_witness:
  "fst (claim ''worker'' 1000 recurring_job [recurring_row]) = None
   \<and> data recurring_job ''interval'' = Some (PInt 600)
   \<and> (0::real) \<le> 1000 \<and> (0::int) \<le> 600
   \<and> data (fst (snd (claim ''worker'' 1000 recurring_job [recurring_row])))
        ''timestamp_claimed'' = Some (PInt 600)
   \<and> data (fst (snd (claim ''worker'' 1000 recurring_job [recurring_row])))
        ''timestamp_lastclaimed'' = Some (PInt 600)
   \<and> hd (snd (snd (claim ''worker'' 1000 recurring_job [recurring_row])))
        ''timestamp_claimed'' = Some (PInt 600)
   \<and> hd (snd (snd (claim ''worker'' 1000 recurring_job [recurring_row])))
        ''timestamp_lastclaimed'' = Some (PInt 600)"
proof -
  let ?c = "claim ''worker'' 1000 recurring_job [recurring_row]"
  have none: "fst ?c = None"
    by (simp add: claim_def claim_time_def eq_zero_def int_of_time_def db_update_def matches_def
        recurring_job_def recurring_row_def)
  then have ok: "?c = (None, fst (snd ?c), snd (snd ?c))"
    by (metis prod.collapse)
  have iv: "data recurring_job ''interval'' = Some (PInt 600)"
    by (simp add: recurring_job_def recurring_row_def)
  have jid: "data recurring_job ''id'' = Some (PInt 7)"
    by (simp add: recurring_job_def recurring_row_def)
  have row: "recurring_row ''id'' = Some (PInt 7)"
            "recurring_row ''timestamp_claimed'' = Some (PInt 0)"
    by (simp_all add: recurring_row_def)
  from claim_sets_snapped_time [OF ok iv] jid row
  have "data (fst (snd ?c)) ''timestamp_claimed'' = Some (PInt 600)
      \<and> data (fst (snd ?c)) ''timestamp_lastclaimed'' = Some (PInt 600)
      \<and> hd (snd (snd ?c)) ''timestamp_claimed'' = Some (PInt 600)
      \<and> hd (snd (snd ?c)) ''timestamp_lastclaimed'' = Some (PInt 600)"
    by auto
  with none iv show ?thesis by simp
qed


text \<open>
  Claim C3. If the conditional update of \<open>claim()\<close> affects no row, \<open>claim()\<close> fails
  with \<open>JobClaimedException\<close> and the object (its \<open>data\<close> and both flags) is as it was
  before the call; so is the store.
\<close>

theorem claim_lost_race:
  assumes "data self ''interval'' = Some iv"
      and "claim_time T iv = Inr ct"
      and "data self ''id'' = Some jid"
      and "fst (db_update
                  [(''timestamp_claimed'', PInt ct),
                   (''timestamp_lastclaimed'', PInt ct),
                   (''instance'', PStr iid)]
                  [(''id'', jid), (''timestamp_claimed'', PInt 0)] st) = 0"
  shows "claim iid T self st = (Some JobClaimedException, self, st)"
  using claim_run [OF assms(1-3), of iid st] assms(4) by simp

theorem claim_lost_race_witness:
  "data recurring_job ''interval'' = Some (PInt 600)
   \<and> claim_time 1000 (PInt 600) = Inr 600
   \<and> data recurring_job ''id'' = Some (PInt 7)
   \<and> fst (db_update
            [(''timestamp_claimed'', PInt 600),
             (''timestamp_lastclaimed'', PInt 600),
             (''instance'', PStr ''worker'')]
            [(''id'', PInt 7), (''timestamp_claimed'', PInt 0)]
            [recurring_row(''timestamp_claimed'' \<mapsto> PInt 600)]) = 0
   \<and> claim ''worker'' 1000 recurring_job [recurring_row(''timestamp_claimed'' \<mapsto> PInt 600)] =
       (Some JobClaimedException, recurring_job,
        [recurring_row(''timestamp_claimed'' \<mapsto> PInt 600)])"
proof -
  have iv: "data recurring_job ''interval'' = Some (PInt 600)"
    by (simp add: recurring_job_def recurring_row_def)
  have ct: "claim_time 1000 (PInt 600) = Inr 600"
    by (simp add: claim_time_def eq_zero_def int_of_time_def)
  have jid: "data recurring_job ''id'' = Some (PInt 7)"
    by (simp add: recurring_job_def recurring_row_def)
  have zero: "fst (db_update
            [(''timestamp_claimed'', PInt 600),
             (''timestamp_lastclaimed'', PInt 600),
             (''instance'', PStr ''worker'')]
            [(''id'', PInt 7), (''timestamp_claimed'', PInt 0)]
            [recurring_row(''timestamp_claimed'' \<mapsto> PInt 600)]) = 0"
    by (simp add: db_update_def matches_def)
  from claim_lost_race [OF iv ct jid zero] iv ct jid zero show ?thesis by simp
qed

subsection \<open>Several claimants\<close>

text \<open>
  While every claim time is different from zero, the conditional update gives the job to
  one claimant: the first whose update reaches the store wins, and every later one fails
  with \<open>JobClaimedException\<close>, whatever its instance, clock or object.
\<close>

lemma claimant_ofE:
  assumes "claimant_of jid (iid, T, j)"
  obtains iv ct where "data j ''id'' = Some jid" "data j ''interval'' = Some iv"
    "claim_time T iv = Inr ct" "ct \<noteq> 0"
  using assms by (auto simp: claimant_of_def split: option.splits sum.splits)

lemma unclaimed_in_matches:
  "jid \<noteq> PNone \<Longrightarrow>
   unclaimed_in jid st \<longleftrightarrow>
     (\<exists>r \<in> set st. matches [(''id'', jid), (''timestamp_claimed'', PInt 0)] r)"
  by (simp add: unclaimed_in_def list_ex_iff matches_unclaimed)

lemma claim_when_taken:
  assumes c: "claimant_of jid (iid, T, j)" and jid: "jid \<noteq> PNone"
      and taken: "\<not> unclaimed_in jid st"
  shows "claim iid T j st = (Some JobClaimedException, j, st)"
proof -
  from c obtain iv ct where a: "data j ''interval'' = Some iv" "claim_time T iv = Inr ct"
    "data j ''id'' = Some jid"
    by (auto elim: claimant_ofE)
  have "fst (db_update
               [(''timestamp_claimed'', PInt ct), (''timestamp_lastclaimed'', PInt ct),
                (''instance'', PStr iid)]
               [(''id'', jid), (''timestamp_claimed'', PInt 0)] st) = 0"
    using taken update_some_matching unclaimed_in_matches [OF jid] by blast
  with claim_run [OF a, of iid st] show ?thesis by simp
qed

lemma claim_when_free:
  assumes c: "claimant_of jid (iid, T, j)" and jid: "jid \<noteq> PNone"
      and free: "unclaimed_in jid st"
  shows "fst (claim iid T j st) = None \<and> \<not> unclaimed_in jid (snd (snd (claim iid T j st)))"
proof -
  from c obtain iv ct where a: "data j ''interval'' = Some iv" "claim_time T iv = Inr ct"
    "data j ''id'' = Some jid" and ct: "ct \<noteq> 0"
    by (auto elim: claimant_ofE)
  let ?upd = "[(''timestamp_claimed'', PInt ct), (''timestamp_lastclaimed'', PInt ct),
               (''instance'', PStr iid)]"
  let ?wh = "[(''id'', jid), (''timestamp_claimed'', PInt 0)]"
  have nz: "fst (db_update ?upd ?wh st) \<noteq> 0"
    using free update_some_matching unclaimed_in_matches [OF jid] by blast
  have "\<not> unclaimed_in jid (snd (db_update ?upd ?wh st))"
    using ct jid
    by (auto simp: unclaimed_in_def list_ex_iff db_update_def matches_unclaimed assign_def
        split: if_splits)
  with nz claim_run [OF a, of iid st] show ?thesis by simp
qed

lemma claim_attempts_when_taken:
  assumes "\<forall>c \<in> set cs. claimant_of jid c" and "jid \<noteq> PNone" and "\<not> unclaimed_in jid st"
  shows "claim_attempts cs st = (replicate (length cs) (Some JobClaimedException), st)"
  using assms
proof (induction cs)
  case Nil
  then show ?case by simp
next
  case (Cons c cs)
  obtain iid T j where c: "c = (iid, T, j)" by (cases c) auto
  with Cons.prems have "claim iid T j st = (Some JobClaimedException, j, st)"
    by (auto intro: claim_when_taken)
  with Cons c show ?case by simp
qed

lemma claim_attempts_one_winner:
  assumes cs: "\<forall>c \<in> set cs. claimant_of jid c" and ne: "cs \<noteq> []"
      and jid: "jid \<noteq> PNone" and free: "unclaimed_in jid st"
  shows "fst (claim_attempts cs st) =
           None # replicate (length cs - 1) (Some JobClaimedException)"
proof -
  from ne obtain c cs' where split: "cs = c # cs'" by (cases cs) auto
  obtain iid T j where c: "c = (iid, T, j)" by (cases c) auto
  from cs split c have first: "claimant_of jid (iid, T, j)" by simp
  obtain e j' st' where run: "claim iid T j st = (e, j', st')" by (cases "claim iid T j st") auto
  with claim_when_free [OF first jid free] have e: "e = None" and taken: "\<not> unclaimed_in jid st'"
    by simp_all
  from cs split have "\<forall>c \<in> set cs'. claimant_of jid c" by simp
  from claim_attempts_when_taken [OF this jid taken] run e split c
  show ?thesis by simp
qed

text \<open>
  Claim C1 says that of the callers that attempt to claim one job row, exactly one
  succeeds. The code does not keep to it when the claim time is zero: a claim at second
  1700000000 of a job whose interval is 2000000000 seconds computes
  \<open>floor(1700000000 / 2000000000) * 2000000000 = 0\<close> and writes
  \<open>timestamp_claimed = 0\<close>, the mark of an unclaimed row. The update matched a row, so
  the claim succeeds; the row is still unclaimed, so the next caller's claim succeeds
  too.
\<close>

theorem zero_claim_time_claimed_twice:
  "data long_job ''id'' = Some (PInt 9)
   \<and> long_row ''timestamp_claimed'' = Some (PInt 0)
   \<and> claim_time 1700000000 (PInt 2000000000) = Inr 0
   \<and> fst (claim_attempts [(''worker_a'', 1700000000, long_job),
                           (''worker_b'', 1700000000, long_job)] [long_row])
       = [None, None]
   \<and> hd (snd (claim_attempts [(''worker_a'', 1700000000, long_job),
                               (''worker_b'', 1700000000, long_job)] [long_row]))
        ''timestamp_claimed'' = Some (PInt 0)"
  by (simp add: claim_def claim_time_def eq_zero_def int_of_time_def db_update_def matches_def
      assign_def long_job_def long_row_def)

subsection \<open>Finishing\<close>

text \<open>
  Claim C4. \<open>finish(delete)\<close> deletes the job's rows when \<open>delete\<close> is true or the
  interval is zero; otherwise it sets \<open>timestamp_claimed\<close> and \<open>attempts\<close> of these
  rows to \<open>0\<close> and leaves every row in place. Either way the object is marked finished.
\<close>

theorem finish_deletes_or_resets:
  assumes "data self ''interval'' = Some iv"
      and "data self ''id'' = Some jid"
      and "jid \<noteq> PNone"
  shows "finish self delete st =
           (None, self\<lparr>is_finished := PBool True\<rparr>,
            if eq_zero iv \<or> delete
            then filter (\<lambda>r. r ''id'' \<noteq> Some jid) st
            else map (\<lambda>r. if r ''id'' = Some jid
                           then r(''timestamp_claimed'' \<mapsto> PInt 0, ''attempts'' \<mapsto> PInt 0)
                           else r) st)"
  using assms
  by (simp add: finish_def db_delete_def db_update_def matches_id assign_def)

theorem finish_deletes_or_resets_witness:
  "data recurring_job ''interval'' = Some (PInt 600)
   \<and> data recurring_job ''id'' = Some (PInt 7)
   \<and> PInt 7 \<noteq> PNone
   \<and> finish recurring_job True [one_shot_row, recurring_row] =
       (None, recurring_job\<lparr>is_finished := PBool True\<rparr>, [one_shot_row])
   \<and> finish recurring_job False
        [one_shot_row, recurring_row(''timestamp_claimed'' \<mapsto> PInt 600)] =
       (None, recurring_job\<lparr>is_finished := PBool True\<rparr>,
        [one_shot_row,
         recurring_row(''timestamp_claimed'' \<mapsto> PInt 0, ''attempts'' \<mapsto> PInt 0)])"
proof -
  have iv: "data recurring_job ''interval'' = Some (PInt 600)"
   and jid: "data recurring_job ''id'' = Some (PInt 7)"
    by (simp_all add: recurring_job_def recurring_row_def)
  have ids: "one_shot_row ''id'' = Some (PInt 8)" "recurring_row ''id'' = Some (PInt 7)"
    by (simp_all add: one_shot_row_def recurring_row_def)
  have nz: "\<not> eq_zero (PInt 600)" by (simp add: eq_zero_def)
  from finish_deletes_or_resets [OF iv jid, of True "[one_shot_row, recurring_row]"]
  have del: "finish recurring_job True [one_shot_row, recurring_row] =
       (None, recurring_job\<lparr>is_finished := PBool True\<rparr>, [one_shot_row])"
    by (simp add: ids)
  from finish_deletes_or_resets [OF iv jid, of False
        "[one_shot_row, recurring_row(''timestamp_claimed'' \<mapsto> PInt 600)]"]
  have reset: "finish recurring_job False
        [one_shot_row, recurring_row(''timestamp_claimed'' \<mapsto> PInt 600)] =
       (None, recurring_job\<lparr>is_finished := PBool True\<rparr>,
        [one_shot_row,
         recurring_row(''timestamp_claimed'' \<mapsto> PInt 0, ''attempts'' \<mapsto> PInt 0)])"
    by (simp add: ids nz)
  from iv jid del reset show ?thesis by simp
qed

subsection \<open>Releasing\<close>

text \<open>The row that the update of \<open>release\<close> writes, and what \<open>release\<close> returns.\<close>

lemma release_update_assign:
  "assign (release_update T n delay claim_after) r =
     (if delay > 0
      then r(''timestamp_claimed'' \<mapsto> PInt 0, ''attempts'' \<mapsto> PInt (n + 1),
             ''timestamp_after'' \<mapsto> PInt (int_of_time T + delay))
      else (case claim_after of
              Some c \<Rightarrow> r(''timestamp_claimed'' \<mapsto> PInt 0, ''attempts'' \<mapsto> PInt (n + 1),
                           ''timestamp_after'' \<mapsto> PInt c)
            | None \<Rightarrow> r(''timestamp_claimed'' \<mapsto> PInt 0, ''attempts'' \<mapsto> PInt (n + 1))))"
  by (simp add: release_update_def assign_def split: option.splits)

lemma release_run:
  assumes "data self ''attempts'' = Some (PInt n)"
      and "data self ''id'' = Some jid"
      and "jid \<noteq> PNone"
  shows "release T self delay claim_after st =
           (None, self\<lparr>is_claimed := PBool False\<rparr>,
            map (\<lambda>r. if r ''id'' = Some jid
                      then assign (release_update T n delay claim_after) r
                      else r) st)"
  using assms by (simp add: release_def db_update_def matches_id)

text \<open>
  Claim C5, as stated, fails in three places. It says that \<open>timestamp_after\<close> is not
  touched when neither a delay nor a \<open>claim_after\<close> is supplied: the default of
  \<open>claim_after\<close> is \<open>0\<close>, which is not \<open>None\<close>, so \<open>release()\<close> writes
  \<open>timestamp_after = 0\<close> and the row's \<open>500\<close> is gone. It says that a delay of 60 at
  time \<open>T\<close> gives \<open>T + 60\<close>: at second 1000.5 the row gets 1060, the whole seconds of
  the clock plus the delay. It says that the row's \<open>attempts\<close> grows by one: the update
  writes the \<open>attempts\<close> of the object plus one, and \<open>release()\<close> leaves the object's
  \<open>attempts\<close> as it was, so a second release from the same object writes the same
  number again, 3 after 3.
\<close>

theorem release_default_resets_after_counterexample:
  "recurring_row ''timestamp_after'' = Some (PInt 500)
   \<and> fst (release 1000 recurring_job 0 (Some 0) [recurring_row]) = None
   \<and> hd (snd (snd (release 1000 recurring_job 0 (Some 0) [recurring_row])))
        ''timestamp_after'' = Some (PInt 0)
   \<and> hd (snd (snd (release (2001 / 2) recurring_job 60 (Some 0) [recurring_row])))
        ''timestamp_after'' = Some (PInt 1060)
   \<and> (2001 / 2 :: real) + 60 \<noteq> 1060
   \<and> fst released_first = None
   \<and> hd (snd (snd released_first)) ''attempts'' = Some (PInt 3)
   \<and> fst released_second = None
   \<and> hd (snd (snd released_second)) ''attempts'' = Some (PInt 3)"
  by (simp add: released_second_def released_first_def release_def db_update_def matches_def
      release_update_assign int_of_time_def recurring_job_def recurring_row_def)

text \<open>
  Claim C5, amended. For a job whose object holds the \<open>attempts\<close> of its rows (as it
  does once loaded), \<open>release(delay, claim_after)\<close> at time \<open>T\<close> sets, in each of the
  job's rows, \<open>timestamp_claimed\<close> to \<open>0\<close> and \<open>attempts\<close> to the row's \<open>attempts\<close>
  plus one. It sets \<open>timestamp_after\<close> to \<open>int(T) + delay\<close> when \<open>delay > 0\<close>;
  otherwise to \<open>claim_after\<close> whenever that is not \<open>None\<close> (the default \<open>0\<close>
  included); it leaves \<open>timestamp_after\<close> alone only when \<open>delay\<close> is not positive and
  \<open>claim_after\<close> is \<open>None\<close>. Every other row is left as it is, and the object is marked
  unclaimed.
\<close>

theorem release_row_effect:
  assumes att: "data self ''attempts'' = Some (PInt n)"
      and jid: "data self ''id'' = Some jid" "jid \<noteq> PNone"
      and sync: "\<forall>r \<in> set st. r ''id'' = Some jid \<longrightarrow> r ''attempts'' = Some (PInt n)"
  shows "\<exists>st'. release T self delay claim_after st =
                 (None, self\<lparr>is_claimed := PBool False\<rparr>, st')
          \<and> list_all2
               (\<lambda>r r'. if r ''id'' = Some jid
                  then (\<exists>a. r ''attempts'' = Some (PInt a) \<and>
                        r' = (if delay > 0
                              then r(''timestamp_claimed'' \<mapsto> PInt 0,
                                     ''attempts'' \<mapsto> PInt (a + 1),
                                     ''timestamp_after'' \<mapsto> PInt (int_of_time T + delay))
                              else (case claim_after of
                                      Some c \<Rightarrow> r(''timestamp_claimed'' \<mapsto> PInt 0,
                                                   ''attempts'' \<mapsto> PInt (a + 1),
                                                   ''timestamp_after'' \<mapsto> PInt c)
                                    | None \<Rightarrow> r(''timestamp_claimed'' \<mapsto> PInt 0,
                                                 ''attempts'' \<mapsto> PInt (a + 1)))))
                  else r' = r)
               st st'"
proof -
  let ?f = "\<lambda>r. if r ''id'' = Some jid
                 then assign (release_update T n delay claim_after) r
                 else r"
  have run: "release T self delay claim_after st =
               (None, self\<lparr>is_claimed := PBool False\<rparr>, map ?f st)"
    using att jid by (rule release_run)
  moreover have "list_all2
               (\<lambda>r r'. if r ''id'' = Some jid
                  then (\<exists>a. r ''attempts'' = Some (PInt a) \<and>
                        r' = (if delay > 0
                              then r(''timestamp_claimed'' \<mapsto> PInt 0,
                                     ''attempts'' \<mapsto> PInt (a + 1),
                                     ''timestamp_after'' \<mapsto> PInt (int_of_time T + delay))
                              else (case claim_after of
                                      Some c \<Rightarrow> r(''timestamp_claimed'' \<mapsto> PInt 0,
                                                   ''attempts'' \<mapsto> PInt (a + 1),
                                                   ''timestamp_after'' \<mapsto> PInt c)
                                    | None \<Rightarrow> r(''timestamp_claimed'' \<mapsto> PInt 0,
                                                 ''attempts'' \<mapsto> PInt (a + 1)))))
                  else r' = r)
               st (map ?f st)"
    unfolding list_all2_map2 list_all2_same
  proof
    fix r assume "r \<in> set st"
    with sync have "r ''id'' = Some jid \<Longrightarrow> r ''attempts'' = Some (PInt n)" by blast
    then show "if r ''id'' = Some jid
                  then (\<exists>a. r ''attempts'' = Some (PInt a) \<and>
                        ?f r = (if delay > 0
                              then r(''timestamp_claimed'' \<mapsto> PInt 0,
                                     ''attempts'' \<mapsto> PInt (a + 1),
                                     ''timestamp_after'' \<mapsto> PInt (int_of_time T + delay))
                              else (case claim_after of
                                      Some c \<Rightarrow> r(''timestamp_claimed'' \<mapsto> PInt 0,
                                                   ''attempts'' \<mapsto> PInt (a + 1),
                                                   ''timestamp_after'' \<mapsto> PInt c)
                                    | None \<Rightarrow> r(''timestamp_claimed'' \<mapsto> PInt 0,
                                                 ''attempts'' \<mapsto> PInt (a + 1)))))
                  else ?f r = r"
      by (simp add: release_update_assign)
  qed
  ultimately show ?thesis by blast
qed

theorem release_row_effect_witness:
  "data recurring_job ''attempts'' = Some (PInt 2)
   \<and> data recurring_job ''id'' = Some (PInt 7)
   \<and> PInt 7 \<noteq> PNone
   \<and> recurring_row ''attempts'' = Some (PInt 2)
   \<and> release 1000 recurring_job 60 (Some 0) [one_shot_row, recurring_row] =
       (None, recurring_job\<lparr>is_claimed := PBool False\<rparr>,
        [one_shot_row,
         recurring_row(''timestamp_claimed'' \<mapsto> PInt 0, ''attempts'' \<mapsto> PInt 3,
                       ''timestamp_after'' \<mapsto> PInt 1060)])
   \<and> release 1000 recurring_job 0 (Some 2000) [one_shot_row, recurring_row] =
       (None, recurring_job\<lparr>is_claimed := PBool False\<rparr>,
        [one_shot_row,
         recurring_row(''timestamp_claimed'' \<mapsto> PInt 0, ''attempts'' \<mapsto> PInt 3,
                       ''timestamp_after'' \<mapsto> PInt 2000)])
   \<and> release 1000 recurring_job 0 None [one_shot_row, recurring_row] =
       (None, recurring_job\<lparr>is_claimed := PBool False\<rparr>,
        [one_shot_row,
         recurring_row(''timestamp_claimed'' \<mapsto> PInt 0, ''attempts'' \<mapsto> PInt 3)])"
proof -
  have att: "data recurring_job ''attempts'' = Some (PInt 2)"
   and jid: "data recurring_job ''id'' = Some (PInt 7)"
    by (simp_all add: recurring_job_def recurring_row_def)
  have row: "recurring_row ''id'' = Some (PInt 7)" "recurring_row ''attempts'' = Some (PInt 2)"
            "one_shot_row ''id'' = Some (PInt 8)"
    by (simp_all add: recurring_row_def one_shot_row_def)
  have sync: "\<forall>r \<in> set [one_shot_row, recurring_row].
                r ''id'' = Some (PInt 7) \<longrightarrow> r ''attempts'' = Some (PInt 2)"
    by (simp add: row)
  have T: "int_of_time 1000 = 1000" by (simp add: int_of_time_def)
  have ne: "PInt 7 \<noteq> PNone" by simp
  have a: "release 1000 recurring_job 60 (Some 0) [one_shot_row, recurring_row] =
       (None, recurring_job\<lparr>is_claimed := PBool False\<rparr>,
        [one_shot_row,
         recurring_row(''timestamp_claimed'' \<mapsto> PInt 0, ''attempts'' \<mapsto> PInt 3,
                       ''timestamp_after'' \<mapsto> PInt 1060)])"
    using release_row_effect [OF att jid ne sync, of 1000 60 "Some 0"]
    by (auto simp: list_all2_Cons1 row T)
  have b: "release 1000 recurring_job 0 (Some 2000) [one_shot_row, recurring_row] =
       (None, recurring_job\<lparr>is_claimed := PBool False\<rparr>,
        [one_shot_row,
         recurring_row(''timestamp_claimed'' \<mapsto> PInt 0, ''attempts'' \<mapsto> PInt 3,
                       ''timestamp_after'' \<mapsto> PInt 2000)])"
    using release_row_effect [OF att jid ne sync, of 1000 0 "Some 2000"]
    by (auto simp: list_all2_Cons1 row T)
  have c: "release 1000 recurring_job 0 None [one_shot_row, recurring_row] =
       (None, recurring_job\<lparr>is_claimed := PBool False\<rparr>,
        [one_shot_row,
         recurring_row(''timestamp_claimed'' \<mapsto> PInt 0, ''attempts'' \<mapsto> PInt 3)])"
    using release_row_effect [OF att jid ne sync, of 1000 0 None]
    by (auto simp: list_all2_Cons1 row T)
  from att jid row(2) a b c show ?thesis by simp
qed

subsection \<open>Claimability\<close>

text \<open>
  Claim C6. \<open>is_claimable()\<close> returns true exactly when the object is not claimed, not
  finished, and \<open>timestamp_lastclaimed < now - interval\<close>. It is a function of the object
  and the clock alone: the store is not among its arguments.
\<close>

theorem is_claimable_iff:
  "is_claimable now self = Inr True \<longleftrightarrow>
     \<not> truthy (is_claimed self) \<and> \<not> truthy (is_finished self) \<and>
     (\<exists>l t iv i. data self ''timestamp_lastclaimed'' = Some l \<and> as_int l = Some t \<and>
                 data self ''interval'' = Some iv \<and> as_int iv = Some i \<and>
                 real_of_int t < now - real_of_int i)"
  by (auto simp: is_claimable_def split: option.splits)

theorem is_claimable_iff_witness:
  "is_claimable 1700 (recurring_job\<lparr>data := recurring_row(''timestamp_lastclaimed'' \<mapsto> PInt 1000)\<rparr>)
     = Inr True
   \<and> is_claimable 1100 (recurring_job\<lparr>data := recurring_row(''timestamp_lastclaimed'' \<mapsto> PInt 1000)\<rparr>)
     \<noteq> Inr True"
proof -
  let ?J = "recurring_job\<lparr>data := recurring_row(''timestamp_lastclaimed'' \<mapsto> PInt 1000)\<rparr>"
  have flags: "\<not> truthy (is_claimed ?J)" "\<not> truthy (is_finished ?J)"
    by (simp_all add: recurring_job_def)
  have l: "data ?J ''timestamp_lastclaimed'' = Some (PInt 1000)" by simp
  have i: "data ?J ''interval'' = Some (PInt 600)" by (simp add: recurring_row_def)
  have "is_claimable 1700 ?J = Inr True"
    unfolding is_claimable_iff [of 1700 ?J] using flags l i by simp
  moreover have "is_claimable 1100 ?J \<noteq> Inr True"
    unfolding is_claimable_iff [of 1100 ?J] using l i by auto
  ultimately show ?thesis by simp
qed

text \<open>
  Claim C7, as stated, fails: a one-shot job that was claimed before is claimable again.
  The one-shot job of the examples is claimed at second 1000 and released at second 1500;
  its \<open>timestamp_lastclaimed\<close> is 1000, and at second 2000 it is claimable.
\<close>

theorem one_shot_claimable_again_counterexample:
  "fst claimed_once = None
   \<and> fst released_once = None
   \<and> data (fst (snd released_once)) ''interval'' = Some (PInt 0)
   \<and> data (fst (snd released_once)) ''timestamp_lastclaimed'' = Some (PInt 1000)
   \<and> is_claimable 2000 (fst (snd released_once)) = Inr True"
  by (simp add: released_once_def claimed_once_def claim_def claim_time_def eq_zero_def
      int_of_time_def release_def db_update_def matches_def is_claimable_def
      one_shot_job_def one_shot_row_def)

text \<open>
  Claim C7, amended. For a one-shot job (\<open>interval == 0\<close>) the predicate reduces to: not
  claimed, not finished, and \<open>timestamp_lastclaimed < now\<close>. A one-shot job that was
  claimed before is claimable again, once released, at every time after its last claim.
\<close>

theorem one_shot_claimable:
  assumes "data self ''timestamp_lastclaimed'' = Some (PInt t)"
      and "data self ''interval'' = Some (PInt 0)"
  shows "is_claimable now self =
           Inr (\<not> truthy (is_claimed self) \<and> \<not> truthy (is_finished self) \<and>
                real_of_int t < now)"
  using assms by (simp add: is_claimable_def)

theorem one_shot_claimable_witness:
  "data one_shot_job ''timestamp_lastclaimed'' = Some (PInt 0)
   \<and> data one_shot_job ''interval'' = Some (PInt 0)
   \<and> is_claimable 2000 one_shot_job = Inr True
   \<and> is_claimable 0 one_shot_job = Inr False"
proof -
  have l: "data one_shot_job ''timestamp_lastclaimed'' = Some (PInt 0)"
   and i: "data one_shot_job ''interval'' = Some (PInt 0)"
    by (simp_all add: one_shot_job_def one_shot_row_def)
  have flags: "\<not> truthy (is_claimed one_shot_job)" "\<not> truthy (is_finished one_shot_job)"
    by (simp_all add: one_shot_job_def)
  from one_shot_claimable [OF l i, of 2000] one_shot_claimable [OF l i, of 0] flags l i
  show ?thesis by simp
qed

subsection \<open>Details\<close>

text \<open>
  Claim C8, as stated, fails: the accessor is not total. For a row that has no
  \<open>details\<close> field the lookup raises \<open>KeyError\<close>, which the accessor does not catch.
  And not every string that is no JSON document ends in \<open>JSONDecodeError\<close>: on a
  thousand opening brackets \<open>json.loads\<close> raises \<open>RecursionError\<close>, which the
  accessor does not catch either.
\<close>

theorem details_absent_counterexample:
  "Job_init bare_row = Inr bare_job
   \<and> data bare_job ''details'' = None
   \<and> details example_decode bare_job = Inl KeyError
   \<and> example_decode deep_brackets = Inl RecursionError
   \<and> details example_decode (one_shot_job\<lparr>data := one_shot_row(''details'' \<mapsto> PStr deep_brackets)\<rparr>)
       = Inl RecursionError"
proof -
  have a: "Job_init bare_row = Inr bare_job \<and> data bare_job ''details'' = None
           \<and> details example_decode bare_job = Inl KeyError"
    by (simp add: Job_init_def details_def bare_job_def bare_row_def fun_upd_twist)
  have len: "length deep_brackets = 1000"
    by (simp add: deep_brackets_def)
  have brackets: "list_all (\<lambda>c. c = CHR ''['') deep_brackets"
    by (simp add: deep_brackets_def list_all_iff)
  have other: "deep_brackets \<noteq> s" if "length s < 1000" for s
    using that len by auto
  have ne: "deep_brackets \<noteq> []" "deep_brackets \<noteq> ''[1]''" "deep_brackets \<noteq> ''0''"
    by (simp_all add: other)
  have b: "example_decode deep_brackets = Inl RecursionError"
    using len brackets ne by (simp add: example_decode_def)
  have c: "details example_decode
             (one_shot_job\<lparr>data := one_shot_row(''details'' \<mapsto> PStr deep_brackets)\<rparr>)
           = Inl RecursionError"
    using b ne(1) by (simp add: details_def json_loads_def)
  from a b c show ?thesis by simp
qed

text \<open>
  Claim C8, amended. For every row that has a \<open>details\<close> field: if the field is null, an
  empty string, or a string that \<open>json.loads\<close> rejects with \<open>JSONDecodeError\<close>, the
  accessor returns the empty mapping and does not raise.
\<close>

theorem details_empty_when_undecodable:
  assumes "data self ''details'' = Some v"
      and "v = PNone \<or> v = PStr [] \<or> (\<exists>s. v = PStr s \<and> decode s = Inl JSONDecodeError)"
  shows "details decode self = Inr (JObject [])"
  using assms by (auto simp: details_def json_loads_def)

theorem details_empty_when_undecodable_witness:
  "data one_shot_job ''details'' = Some PNone
   \<and> details example_decode one_shot_job = Inr (JObject [])
   \<and> details example_decode (one_shot_job\<lparr>data := one_shot_row(''details'' \<mapsto> PStr [])\<rparr>)
       = Inr (JObject [])
   \<and> example_decode ''nope'' = Inl JSONDecodeError
   \<and> details example_decode (one_shot_job\<lparr>data := one_shot_row(''details'' \<mapsto> PStr ''nope'')\<rparr>)
       = Inr (JObject [])"
proof -
  have null: "data one_shot_job ''details'' = Some PNone"
    by (simp add: one_shot_job_def one_shot_row_def)
  have bad: "example_decode ''nope'' = Inl JSONDecodeError"
    by (simp add: example_decode_def)
  have "details example_decode one_shot_job = Inr (JObject [])"
    using details_empty_when_undecodable [OF null, of example_decode] by simp
  moreover
  have "details example_decode (one_shot_job\<lparr>data := one_shot_row(''details'' \<mapsto> PStr [])\<rparr>)
       = Inr (JObject [])"
    using details_empty_when_undecodable
      [of "one_shot_job\<lparr>data := one_shot_row(''details'' \<mapsto> PStr [])\<rparr>" "PStr []" example_decode]
    by simp
  moreover
  have "details example_decode (one_shot_job\<lparr>data := one_shot_row(''details'' \<mapsto> PStr ''nope'')\<rparr>)
       = Inr (JObject [])"
    using details_empty_when_undecodable
      [of "one_shot_job\<lparr>data := one_shot_row(''details'' \<mapsto> PStr ''nope'')\<rparr>" "PStr ''nope''"
          example_decode] bad
    by simp
  ultimately show ?thesis using null bad by simp
qed

text \<open>
  Claim C9. When the \<open>details\<close> field holds a JSON document, the accessor returns the
  decoded value if it is true in Python's sense and the empty mapping if it is false; the
  false values are \<open>null\<close>, \<open>false\<close>, \<open>0\<close>, \<open>0.0\<close>, the empty string, the empty list
  and the empty object.
\<close>

theorem details_falsy_replaced:
  assumes "data self ''details'' = Some (PStr s)"
      and "s \<noteq> []"
      and "decode s = Inr d"
  shows "details decode self = Inr (if json_truthy d then d else JObject [])
       \<and> (json_truthy d \<longleftrightarrow>
            d \<notin> {JNull, JBool False, JInt 0, JFloat (FFinite 0), JString [], JArray [],
                  JObject []})"
proof
  show "details decode self = Inr (if json_truthy d then d else JObject [])"
    using assms by (simp add: details_def json_loads_def)
  show "json_truthy d \<longleftrightarrow>
            d \<notin> {JNull, JBool False, JInt 0, JFloat (FFinite 0), JString [], JArray [],
                  JObject []}"
  proof (cases d)
    case (JFloat x)
    then show ?thesis by (cases x) auto
  qed auto
qed

theorem details_falsy_replaced_witness:
  "data recurring_job ''details'' = Some (PStr ''[1]'')
   \<and> example_decode ''[1]'' = Inr (JArray [JInt 1])
   \<and> details example_decode recurring_job = Inr (JArray [JInt 1])
   \<and> example_decode ''0'' = Inr (JInt 0)
   \<and> details example_decode (recurring_job\<lparr>data := recurring_row(''details'' \<mapsto> PStr ''0'')\<rparr>)
       = Inr (JObject [])"
proof -
  have d1: "data recurring_job ''details'' = Some (PStr ''[1]'')"
    by (simp add: recurring_job_def recurring_row_def)
  have e1: "example_decode ''[1]'' = Inr (JArray [JInt 1])"
   and e0: "example_decode ''0'' = Inr (JInt 0)"
    by (simp_all add: example_decode_def)
  have "details example_decode recurring_job = Inr (JArray [JInt 1])"
    using details_falsy_replaced [of recurring_job "''[1]''" example_decode "JArray [JInt 1]"]
      d1 e1
    by simp
  moreover
  have "details example_decode (recurring_job\<lparr>data := recurring_row(''details'' \<mapsto> PStr ''0'')\<rparr>)
       = Inr (JObject [])"
    using details_falsy_replaced
      [of "recurring_job\<lparr>data := recurring_row(''details'' \<mapsto> PStr ''0'')\<rparr>" "''0''"
          example_decode "JInt 0"] e0
    by simp
  ultimately show ?thesis using d1 e1 e0 by simp
qed

text \<open>
  Claim C10. \<open>release()\<close> changes the store and the \<open>is_claimed\<close> flag only: when it
  returns, \<open>data\<close> is the mapping it was before the call, with the old \<open>attempts\<close>,
  \<open>timestamp_claimed\<close> and \<open>timestamp_after\<close>, and \<open>is_claimed\<close> is false.
\<close>

theorem release_keeps_data:
  assumes "release T self delay claim_after st = (None, self', st')"
  shows "data self' = data self \<and> is_finished self' = is_finished self
       \<and> is_claimed self' = PBool False"
  using assms by (auto simp: release_def split: option.splits)

theorem release_keeps_data_witness:
  "fst (release 1000 recurring_job 60 (Some 0) [recurring_row]) = None
   \<and> data (fst (snd (release 1000 recurring_job 60 (Some 0) [recurring_row]))) ''attempts''
       = Some (PInt 2)
   \<and> hd (snd (snd (release 1000 recurring_job 60 (Some 0) [recurring_row]))) ''attempts''
       = Some (PInt 3)
   \<and> data (fst (snd (release 1000 recurring_job 60 (Some 0) [recurring_row])))
        ''timestamp_after'' = Some (PInt 500)
   \<and> hd (snd (snd (release 1000 recurring_job 60 (Some 0) [recurring_row])))
        ''timestamp_after'' = Some (PInt 1060)
   \<and> is_claimed (fst (snd (release 1000 recurring_job 60 (Some 0) [recurring_row])))
       = PBool False"
proof -
  let ?r = "release 1000 recurring_job 60 (Some 0) [recurring_row]"
  have none: "fst ?r = None"
    by (simp add: release_def recurring_job_def recurring_row_def)
  then have ok: "?r = (None, fst (snd ?r), snd (snd ?r))"
    by (metis prod.collapse)
  have row: "hd (snd (snd ?r)) ''attempts'' = Some (PInt 3)"
            "hd (snd (snd ?r)) ''timestamp_after'' = Some (PInt 1060)"
    by (simp_all add: release_def db_update_def matches_def release_update_assign
        int_of_time_def recurring_job_def recurring_row_def)
  have old: "data recurring_job ''attempts'' = Some (PInt 2)"
            "data recurring_job ''timestamp_after'' = Some (PInt 500)"
    by (simp_all add: recurring_job_def recurring_row_def)
  from release_keeps_data [OF ok] none row old show ?thesis by simp
qed

end
